theory Spec2Isabelle
  imports Complex_Main "HOL-Library.AList"
begin

section \<open>JavaScript numbers\<close>

text \<open>
  A JavaScript number is an IEEE 754 double: \<open>NaN\<close>, one of the two infinities, or a
  finite value \<open>Fin x\<close>, where \<open>x\<close> is the real number that the double denotes. The two
  zeros are both \<open>Fin 0\<close>: the builder cannot tell them apart, since its sums start from
  \<^verbatim>\<open>0\<close>, none of its divisors is a zero (the array lengths are at least 1, the others
  are the literals \<^verbatim>\<open>10\<close> and \<^verbatim>\<open>100\<close>), and \<^verbatim>\<open>Math.max(0.1, ...)\<close> never returns
  one.
\<close>

datatype number = NaN | NegInf | Fin real | PosInf

text \<open>
  The arithmetic of doubles computes the exact result and rounds it to a double, or to an
  infinity when it is too large. The rounding is a primitive of the language, not code of
  the component: it is the parameter \<open>rd\<close> of the operations below and of everything
  that computes with them, and a property proved for every \<open>rd\<close> holds for the rounding
  of doubles. Exceptional operands are treated as IEEE 754 prescribes.
\<close>

text \<open>\<^verbatim>\<open>a + b\<close>\<close>

fun num_add :: "(real \<Rightarrow> number) \<Rightarrow> number \<Rightarrow> number \<Rightarrow> number" where
  "num_add rd NaN b = NaN"
| "num_add rd a NaN = NaN"
| "num_add rd PosInf NegInf = NaN"
| "num_add rd NegInf PosInf = NaN"
| "num_add rd PosInf b = PosInf"
| "num_add rd a PosInf = PosInf"
| "num_add rd NegInf b = NegInf"
| "num_add rd a NegInf = NegInf"
| "num_add rd (Fin x) (Fin y) = rd (x + y)"

text \<open>
  \<^verbatim>\<open>a / b\<close>. A zero divisor is read as the positive zero, which is what the length of an
  empty array would be.
\<close>

fun num_div :: "(real \<Rightarrow> number) \<Rightarrow> number \<Rightarrow> number \<Rightarrow> number" where
  "num_div rd NaN b = NaN"
| "num_div rd a NaN = NaN"
| "num_div rd PosInf PosInf = NaN"
| "num_div rd PosInf NegInf = NaN"
| "num_div rd NegInf PosInf = NaN"
| "num_div rd NegInf NegInf = NaN"
| "num_div rd PosInf (Fin y) = (if 0 \<le> y then PosInf else NegInf)"
| "num_div rd NegInf (Fin y) = (if 0 \<le> y then NegInf else PosInf)"
| "num_div rd (Fin x) PosInf = Fin 0"
| "num_div rd (Fin x) NegInf = Fin 0"
| "num_div rd (Fin x) (Fin y) =
     (if y = 0 then (if x = 0 then NaN else if 0 < x then PosInf else NegInf)
      else rd (x / y))"

text \<open>\<^verbatim>\<open>a <= b\<close>: false as soon as one side is \<open>NaN\<close>.\<close>

fun num_le :: "number \<Rightarrow> number \<Rightarrow> bool" where
  "num_le NaN b = False"
| "num_le a NaN = False"
| "num_le NegInf b = True"
| "num_le a PosInf = True"
| "num_le PosInf b = False"
| "num_le a NegInf = False"
| "num_le (Fin x) (Fin y) = (x \<le> y)"

text \<open>\<^verbatim>\<open>Math.max(a, b)\<close> and \<^verbatim>\<open>Math.min(a, b)\<close>: \<open>NaN\<close> as soon as one argument is.\<close>

definition Math_max :: "number \<Rightarrow> number \<Rightarrow> number" where
  "Math_max a b = (if a = NaN \<or> b = NaN then NaN else if num_le a b then b else a)"

definition Math_min :: "number \<Rightarrow> number \<Rightarrow> number" where
  "Math_min a b = (if a = NaN \<or> b = NaN then NaN else if num_le a b then a else b)"

text \<open>
  The literal \<^verbatim>\<open>0.1\<close> is the double nearest to one tenth,
  \<open>3602879701896397 / 2 ^ 55\<close>. The literals \<^verbatim>\<open>0\<close>, \<^verbatim>\<open>1\<close>, \<^verbatim>\<open>10\<close>, \<^verbatim>\<open>100\<close> and
  the length of an array are doubles as they stand.
\<close>

definition lit_0_1 :: real where
  "lit_0_1 = 3602879701896397 / 36028797018963968"

section \<open>Data model of the knowledge graph component\<close>

text \<open>
  The interfaces of \<^verbatim>\<open>KnowledgeGraph.tsx\<close>. The numeric fields of a record and the
  value of a link, which the builder computes, are JavaScript numbers. The layout fields
  of a node, which no code of the component computes with, are real numbers. Strings are
  lists of characters. An optional field (\<^verbatim>\<open>x?\<close>, \<^verbatim>\<open>fx?\<close>) is an option;
  \<^verbatim>\<open>null\<close> and \<^verbatim>\<open>undefined\<close> are both \<open>None\<close>.
\<close>

record CSVData =
  latitude :: number
  longitude :: number
  region :: string
  depth :: number
  salinity :: number
  temperature :: number
  ph :: number
  dissolved_oxygen :: number
  fish_population :: number
  plankton :: number
  coral_coverage :: number
  timestamp :: string
  date :: string

text \<open>The union \<^verbatim>\<open>'region' | 'parameter' | 'biology' | 'time'\<close> of \<^verbatim>\<open>GraphNode.type\<close>.\<close>

datatype kind = Region | Parameter | Biology | Time

text \<open>
  \<^verbatim>\<open>GraphNode\<close>. The fields \<^verbatim>\<open>id\<close>, \<^verbatim>\<open>type\<close>, \<^verbatim>\<open>value\<close>, \<^verbatim>\<open>group\<close>,
  \<^verbatim>\<open>x\<close>, \<^verbatim>\<open>y\<close>, \<^verbatim>\<open>fx\<close>, \<^verbatim>\<open>fy\<close> carry the prefix \<open>node_\<close>;
  \<open>node_vx\<close> and \<open>node_vy\<close> are the velocity that the force simulation keeps on
  the same objects.
\<close>

record GraphNode =
  node_id :: string
  node_type :: kind
  node_value :: string
  node_group :: nat
  node_x :: "real option"
  node_y :: "real option"
  node_vx :: "real option"
  node_vy :: "real option"
  node_fx :: "real option"
  node_fy :: "real option"

text \<open>\<^verbatim>\<open>GraphLink\<close>, with \<^verbatim>\<open>source\<close> and \<^verbatim>\<open>target\<close> as the builder writes them: node ids.\<close>

record GraphLink =
  link_source :: string
  link_target :: string
  link_value :: number
  link_type :: string

text \<open>The value \<^verbatim>\<open>{ nodes, links }\<close> held in \<^verbatim>\<open>graphData\<close>.\<close>

record Graph =
  nodes :: "GraphNode list"
  links :: "GraphLink list"

text \<open>
  The state of the component: the two \<^verbatim>\<open>useState\<close> cells and the cooling state of
  the force simulation that the effect creates over \<^verbatim>\<open>graphData.nodes\<close>.
\<close>

record View =
  graphData :: "Graph option"
  selectedNode :: "GraphNode option"
  alpha :: real
  alphaTarget :: real
  running :: bool

section \<open>JavaScript library operations used by the builder\<close>

text \<open>
  \<^verbatim>\<open>Set.prototype.add\<close> on a set kept in insertion order, and \<^verbatim>\<open>new Set(xs)\<close>
  spread back into an array: the distinct elements in order of first occurrence.
\<close>

definition set_add :: "'a list \<Rightarrow> 'a \<Rightarrow> 'a list" where
  "set_add s v = (if v \<in> set s then s else s @ [v])"

definition new_Set :: "'a list \<Rightarrow> 'a list" where
  "new_Set xs = foldl set_add [] xs"

text \<open>
  \<^verbatim>\<open>String.prototype.substring(start, end)\<close>: both indices are clamped to the length
  and swapped when \<^verbatim>\<open>start > end\<close>; it never raises.
\<close>

definition substring :: "string \<Rightarrow> nat \<Rightarrow> nat \<Rightarrow> string" where
  "substring s start end =
     (let a = min start (length s); b = min end (length s);
          lo = min a b; hi = max a b
      in take (hi - lo) (drop lo s))"

text \<open>
  A \<^verbatim>\<open>Map\<close> is an association list in insertion order: \<^verbatim>\<open>has\<close> is membership of
  the key, \<^verbatim>\<open>set\<close> is \<^const>\<open>AList.update\<close> (in place for a present key, at the end
  for a new one), \<^verbatim>\<open>get\<close> followed by a mutation of the object it returns is
  \<^const>\<open>AList.map_entry\<close>.
\<close>

definition Map_has :: "('k \<times> 'v) list \<Rightarrow> 'k \<Rightarrow> bool" where
  "Map_has m k = (k \<in> fst ` set m)"

section \<open>generateKnowledgeGraph\<close>

subsection \<open>Nodes\<close>

definition region_node :: "string \<Rightarrow> GraphNode" where
  "region_node r =
     \<lparr>node_id = ''region-'' @ r, node_type = Region, node_value = r, node_group = 1,
      node_x = None, node_y = None, node_vx = None, node_vy = None,
      node_fx = None, node_fy = None\<rparr>"

definition parameters :: "string list" where
  "parameters = [''salinity'', ''temperature'', ''ph'', ''dissolved_oxygen'', ''depth'']"

definition param_node :: "string \<Rightarrow> GraphNode" where
  "param_node param =
     \<lparr>node_id = ''param-'' @ param, node_type = Parameter, node_value = param, node_group = 2,
      node_x = None, node_y = None, node_vx = None, node_vy = None,
      node_fx = None, node_fy = None\<rparr>"

definition biologyParams :: "string list" where
  "biologyParams = [''fish_population'', ''plankton'', ''coral_coverage'']"

definition bio_node :: "string \<Rightarrow> GraphNode" where
  "bio_node param =
     \<lparr>node_id = ''bio-'' @ param, node_type = Biology, node_value = param, node_group = 3,
      node_x = None, node_y = None, node_vx = None, node_vy = None,
      node_fx = None, node_fy = None\<rparr>"

definition time_node :: "string \<Rightarrow> GraphNode" where
  "time_node month =
     \<lparr>node_id = ''time-'' @ month, node_type = Time, node_value = month, node_group = 4,
      node_x = None, node_y = None, node_vx = None, node_vy = None,
      node_fx = None, node_fy = None\<rparr>"

definition regions :: "CSVData list \<Rightarrow> string list" where
  "regions data = new_Set (map (\<lambda>d. region d) data)"

definition months :: "CSVData list \<Rightarrow> string list" where
  "months data = new_Set (map (\<lambda>d. substring (date d) 0 7) data)"

definition build_nodes :: "CSVData list \<Rightarrow> GraphNode list" where
  "build_nodes data =
     map region_node (regions data) @ map param_node parameters
       @ map bio_node biologyParams @ map time_node (months data)"

subsection \<open>Per-region statistics\<close>

text \<open>The object of eight arrays stored in \<^verbatim>\<open>regionStats\<close> under each region key.\<close>

record Stats =
  s_salinity :: "number list"
  s_temperature :: "number list"
  s_ph :: "number list"
  s_dissolved_oxygen :: "number list"
  s_depth :: "number list"
  s_fish_population :: "number list"
  s_plankton :: "number list"
  s_coral_coverage :: "number list"

definition empty_stats :: Stats where
  "empty_stats =
     \<lparr>s_salinity = [], s_temperature = [], s_ph = [], s_dissolved_oxygen = [], s_depth = [],
      s_fish_population = [], s_plankton = [], s_coral_coverage = []\<rparr>"

text \<open>The eight \<^verbatim>\<open>push\<close> calls of one iteration.\<close>

definition stats_push :: "Stats \<Rightarrow> CSVData \<Rightarrow> Stats" where
  "stats_push stats record =
     \<lparr>s_salinity = s_salinity stats @ [salinity record],
      s_temperature = s_temperature stats @ [temperature record],
      s_ph = s_ph stats @ [ph record],
      s_dissolved_oxygen = s_dissolved_oxygen stats @ [dissolved_oxygen record],
      s_depth = s_depth stats @ [depth record],
      s_fish_population = s_fish_population stats @ [fish_population record],
      s_plankton = s_plankton stats @ [plankton record],
      s_coral_coverage = s_coral_coverage stats @ [coral_coverage record]\<rparr>"

text \<open>
  The property access \<^verbatim>\<open>stats[param]\<close>. The builder reads only the eight names of
  \<^const>\<open>parameters\<close> and \<^const>\<open>biologyParams\<close>; any other name has no array.
\<close>

definition stats_get :: "Stats \<Rightarrow> string \<Rightarrow> number list" where
  "stats_get stats param =
     (if param = ''salinity'' then s_salinity stats
      else if param = ''temperature'' then s_temperature stats
      else if param = ''ph'' then s_ph stats
      else if param = ''dissolved_oxygen'' then s_dissolved_oxygen stats
      else if param = ''depth'' then s_depth stats
      else if param = ''fish_population'' then s_fish_population stats
      else if param = ''plankton'' then s_plankton stats
      else if param = ''coral_coverage'' then s_coral_coverage stats
      else [])"

definition regionStats_step :: "(string \<times> Stats) list \<Rightarrow> CSVData \<Rightarrow> (string \<times> Stats) list" where
  "regionStats_step m record =
     (let regionKey = ''region-'' @ region record;
          m1 = (if \<not> Map_has m regionKey then AList.update regionKey empty_stats m else m)
      in AList.map_entry regionKey (\<lambda>stats. stats_push stats record) m1)"

definition regionStats :: "CSVData list \<Rightarrow> (string \<times> Stats) list" where
  "regionStats data = foldl regionStats_step [] data"

subsection \<open>Links\<close>

text \<open>
  \<^verbatim>\<open>values.reduce((a, b) => a + b, 0) / values.length\<close>: the sum is accumulated from the
  left, starting from \<^verbatim>\<open>0\<close>, and every addition and the division round.
\<close>

definition avgValue :: "(real \<Rightarrow> number) \<Rightarrow> number list \<Rightarrow> number" where
  "avgValue rd values =
     num_div rd (foldl (\<lambda>a b. num_add rd a b) (Fin 0) values) (Fin (real (length values)))"

text \<open>\<^verbatim>\<open>Math.max(0.1, Math.min(10, avgValue / 10))\<close> and the same with \<^verbatim>\<open>100\<close>.\<close>

definition param_link :: "(real \<Rightarrow> number) \<Rightarrow> string \<Rightarrow> Stats \<Rightarrow> string \<Rightarrow> GraphLink" where
  "param_link rd regionId stats param =
     \<lparr>link_source = regionId, link_target = ''param-'' @ param,
      link_value =
        Math_max (Fin lit_0_1)
          (Math_min (Fin 10) (num_div rd (avgValue rd (stats_get stats param)) (Fin 10))),
      link_type = ''parameter''\<rparr>"

definition bio_link :: "(real \<Rightarrow> number) \<Rightarrow> string \<Rightarrow> Stats \<Rightarrow> string \<Rightarrow> GraphLink" where
  "bio_link rd regionId stats param =
     \<lparr>link_source = regionId, link_target = ''bio-'' @ param,
      link_value =
        Math_max (Fin lit_0_1)
          (Math_min (Fin 10) (num_div rd (avgValue rd (stats_get stats param)) (Fin 100))),
      link_type = ''biology''\<rparr>"

definition region_links :: "(real \<Rightarrow> number) \<Rightarrow> string \<times> Stats \<Rightarrow> GraphLink list" where
  "region_links rd e =
     map (param_link rd (fst e) (snd e)) parameters
       @ map (bio_link rd (fst e) (snd e)) biologyParams"

definition monthlyRegions_step ::
  "(string \<times> string list) list \<Rightarrow> CSVData \<Rightarrow> (string \<times> string list) list" where
  "monthlyRegions_step m record =
     (let month = substring (date record) 0 7;
          m1 = (if \<not> Map_has m month then AList.update month [] m else m)
      in AList.map_entry month (\<lambda>s. set_add s (region record)) m1)"

definition monthlyRegions :: "CSVData list \<Rightarrow> (string \<times> string list) list" where
  "monthlyRegions data = foldl monthlyRegions_step [] data"

definition temporal_link :: "string \<Rightarrow> string \<Rightarrow> GraphLink" where
  "temporal_link month r =
     \<lparr>link_source = ''time-'' @ month, link_target = ''region-'' @ r,
      link_value = Fin 1, link_type = ''temporal''\<rparr>"

definition month_links :: "string \<times> string list \<Rightarrow> GraphLink list" where
  "month_links e = map (temporal_link (fst e)) (snd e)"

definition build_links :: "(real \<Rightarrow> number) \<Rightarrow> CSVData list \<Rightarrow> GraphLink list" where
  "build_links rd data =
     concat (map (region_links rd) (regionStats data))
       @ concat (map month_links (monthlyRegions data))"

subsection \<open>The function\<close>

text \<open>
  \<^verbatim>\<open>generateKnowledgeGraph\<close> reads the \<^verbatim>\<open>data\<close> prop and either returns at once
  (no records) or calls \<^verbatim>\<open>setGraphData({ nodes, links })\<close>. Nothing else of the
  component state is written.
\<close>

definition generateKnowledgeGraph :: "(real \<Rightarrow> number) \<Rightarrow> CSVData list \<Rightarrow> View \<Rightarrow> View" where
  "generateKnowledgeGraph rd data st =
     (if length data = 0 then st
      else st\<lparr>graphData := Some \<lparr>nodes = build_nodes data, links = build_links rd data\<rparr>\<rparr>)"

section \<open>Interaction handlers\<close>


definition update_node :: "nat \<Rightarrow> (GraphNode \<Rightarrow> GraphNode) \<Rightarrow> View \<Rightarrow> View" where
  "update_node i f st =
     (case graphData st of
        None \<Rightarrow> st
      | Some g \<Rightarrow>
          if i < length (nodes g)
          then st\<lparr>graphData := Some (g\<lparr>nodes := (nodes g)[i := f (nodes g ! i)]\<rparr>)\<rparr>
          else st)"






section \<open>The simulation step\<close>

text \<open>
  The component obtains its force simulation from a library outside the sources; the
  handlers above only write \<^verbatim>\<open>fx\<close>, \<^verbatim>\<open>fy\<close> and the cooling target. The step itself
  is therefore taken from section 4.2 of the specification: a step computes the net
  displacement of every unpinned node from the combined forces, integrates velocity and
  position, and moves \<open>alpha\<close> by the fixed factor \<open>alphaDecay\<close>; a pinned coordinate
  overrides the simulated motion of its node. Once \<open>alpha\<close> is below \<open>alphaMin\<close> the
  engine has converged and a step is a no-op.
\<close>






section \<open>Vocabulary of the properties\<close>

text \<open>The nodes of one kind, and the links of one category between two ids.\<close>

definition nodes_of_type :: "kind \<Rightarrow> Graph \<Rightarrow> GraphNode list" where
  "nodes_of_type t g = filter (\<lambda>n. node_type n = t) (nodes g)"

definition links_of_type :: "string \<Rightarrow> Graph \<Rightarrow> GraphLink list" where
  "links_of_type t g = filter (\<lambda>l. link_type l = t) (links g)"


text \<open>The year-month key of a record: the first 7 characters of its date.\<close>

definition month_of :: "CSVData \<Rightarrow> string" where
  "month_of d = take 7 (date d)"

text \<open>The records of one region, and the regions seen in one month, first occurrence first.\<close>

definition records_of :: "string \<Rightarrow> CSVData list \<Rightarrow> CSVData list" where
  "records_of r data = filter (\<lambda>d. region d = r) data"

definition regions_in :: "string \<Rightarrow> CSVData list \<Rightarrow> string list" where
  "regions_in m data = new_Set (map region (filter (\<lambda>d. month_of d = m) data))"



text \<open>
  A number lies in the band of the link weights, from the literal \<^verbatim>\<open>0.1\<close> to
  \<^verbatim>\<open>10\<close>.
\<close>

definition in_band :: "number \<Rightarrow> bool" where
  "in_band w = (num_le (Fin lit_0_1) w \<and> num_le w (Fin 10))"


text \<open>
  The weight that the builder gives to the values \<open>xs\<close> with divisor \<open>c\<close>:
  \<^verbatim>\<open>Math.max(0.1, Math.min(10, avg / c))\<close>, where \<^verbatim>\<open>avg\<close> is the sum of \<open>xs\<close>,
  accumulated from the left in the arithmetic of doubles, divided by their number.
\<close>

definition js_weight :: "(real \<Rightarrow> number) \<Rightarrow> number list \<Rightarrow> real \<Rightarrow> number" where
  "js_weight rd xs c =
     Math_max (Fin lit_0_1) (Math_min (Fin 10) (num_div rd (avgValue rd xs) (Fin c)))"



text \<open>The id that the specification derives from kind and label.\<close>

definition id_of :: "kind \<Rightarrow> string \<Rightarrow> string" where
  "id_of k label =
     (case k of Region \<Rightarrow> ''region-'' | Parameter \<Rightarrow> ''param-''
              | Biology \<Rightarrow> ''bio-'' | Time \<Rightarrow> ''time-'') @ label"



text \<open>
  The grouping that both \<^const>\<open>regionStats\<close> and \<^const>\<open>monthlyRegions\<close> perform: one
  step of the loop with key \<open>key\<close>, initial value \<open>e\<close> and insertion \<open>ins\<close>, and the
  table it builds.
\<close>

definition group_step ::
  "('a \<Rightarrow> 'k) \<Rightarrow> 'v \<Rightarrow> ('v \<Rightarrow> 'a \<Rightarrow> 'v) \<Rightarrow> ('k \<times> 'v) list \<Rightarrow> 'a \<Rightarrow> ('k \<times> 'v) list" where
  "group_step key e ins m x =
     AList.map_entry (key x) (\<lambda>v. ins v x)
       (if \<not> Map_has m (key x) then AList.update (key x) e m else m)"

definition grouped :: "('a \<Rightarrow> 'k) \<Rightarrow> 'v \<Rightarrow> ('v \<Rightarrow> 'a \<Rightarrow> 'v) \<Rightarrow> 'a list \<Rightarrow> ('k \<times> 'v) list" where
  "grouped key e ins xs =
     map (\<lambda>k. (k, foldl ins e (filter (\<lambda>x. key x = k) xs))) (new_Set (map key xs))"

definition stats_of :: "CSVData list \<Rightarrow> Stats" where
  "stats_of ds =
     \<lparr>s_salinity = map salinity ds, s_temperature = map temperature ds, s_ph = map ph ds,
      s_dissolved_oxygen = map dissolved_oxygen ds, s_depth = map depth ds,
      s_fish_population = map fish_population ds, s_plankton = map plankton ds,
      s_coral_coverage = map coral_coverage ds\<rparr>"

section \<open>Sample inputs\<close>

text \<open>
  The rounding that changes nothing. It agrees with the rounding of doubles on every real
  number that is a double; the numeric fields of the samples are chosen so that every sum
  and quotient that the builder computes on them is one.
\<close>

definition exact :: "real \<Rightarrow> number" where
  "exact x = Fin x"

text \<open>A record with region \<open>r\<close>, date \<open>dt\<close> and the value \<open>v\<close> in every numeric field.\<close>

definition sample :: "string \<Rightarrow> string \<Rightarrow> number \<Rightarrow> CSVData" where
  "sample r dt v =
     \<lparr>latitude = Fin 0, longitude = Fin 0, region = r, depth = v, salinity = v, temperature = v,
      ph = v, dissolved_oxygen = v, fish_population = v, plankton = v, coral_coverage = v,
      timestamp = dt, date = dt\<rparr>"

definition scenario_A :: "CSVData list" where
  "scenario_A =
     [sample ''Pacific'' ''2025-01-15'' (Fin 300), sample ''Atlantic'' ''2025-02-20'' (Fin 200)]"

definition scenario_B :: "CSVData list" where
  "scenario_B =
     [sample ''Pacific'' ''2025-03-01'' (Fin 100), sample ''Pacific'' ''2025-03-15'' (Fin 200),
      sample ''Pacific'' ''2025-03-30'' (Fin 300)]"

text \<open>Records whose dates are empty or shorter than 7 characters, and one full date.\<close>

definition short_dates :: "CSVData list" where
  "short_dates =
     [sample ''Pacific'' [] (Fin 100), sample ''Atlantic'' ''2025'' (Fin 200),
      sample ''Pacific'' ''2025-03-01'' (Fin 300)]"

definition initial_view :: View where
  "initial_view =
     \<lparr>graphData = None, selectedNode = None, alpha = 1, alphaTarget = 0, running = False\<rparr>"






section \<open>Properties\<close>

lemma set_foldl_set_add: "set (foldl set_add acc xs) = set acc \<union> set xs"
  by (induction xs arbitrary: acc) (auto simp: set_add_def)

lemma distinct_foldl_set_add: "distinct acc \<Longrightarrow> distinct (foldl set_add acc xs)"
  by (induction xs arbitrary: acc) (auto simp: set_add_def)

lemma set_new_Set: "set (new_Set xs) = set xs"
  by (simp add: new_Set_def set_foldl_set_add)

lemma distinct_new_Set: "distinct (new_Set xs)"
  by (simp add: new_Set_def distinct_foldl_set_add)

lemma new_Set_snoc: "new_Set (xs @ [x]) = set_add (new_Set xs) x"
  by (simp add: new_Set_def)

lemma length_new_Set: "length (new_Set xs) = card (set xs)"
  using distinct_card [OF distinct_new_Set, of xs] by (simp add: set_new_Set)

lemma substring_prefix: "substring s 0 n = take n s"
  by (simp add: substring_def Let_def min_def)

lemma map_entry_tabulate:
  "distinct ks \<Longrightarrow>
   AList.map_entry k f (map (\<lambda>k. (k, G k)) ks) = map (\<lambda>j. (j, if j = k then f (G j) else G j)) ks"
  by (induction ks) auto

lemma update_fresh: "k \<notin> fst ` set m \<Longrightarrow> AList.update k v m = m @ [(k, v)]"
  by (induction m) auto

lemma map_entry_snoc_fresh:
  "k \<notin> fst ` set m \<Longrightarrow> AList.map_entry k f (m @ [(k, v)]) = m @ [(k, f v)]"
  by (induction m) auto

lemma group_step_grouped:
  "group_step key e ins (grouped key e ins xs) x = grouped key e ins (xs @ [x])"
proof (cases "key x \<in> key ` set xs")
  case True
  then have has: "Map_has (grouped key e ins xs) (key x)"
    by (simp add: Map_has_def grouped_def set_new_Set image_image)
  from True have same: "new_Set (map key (xs @ [x])) = new_Set (map key xs)"
    by (simp add: new_Set_snoc set_add_def set_new_Set)
  have "group_step key e ins (grouped key e ins xs) x =
        map (\<lambda>j. (j, if j = key x then ins (foldl ins e (filter (\<lambda>y. key y = j) xs)) x
                      else foldl ins e (filter (\<lambda>y. key y = j) xs)))
          (new_Set (map key xs))"
    using has by (simp add: group_step_def) (simp add: grouped_def map_entry_tabulate distinct_new_Set)
  also have "\<dots> = map (\<lambda>k. (k, foldl ins e (filter (\<lambda>y. key y = k) (xs @ [x]))))
                    (new_Set (map key xs))"
    by auto
  also have "\<dots> = grouped key e ins (xs @ [x])"
    unfolding grouped_def same ..
  finally show ?thesis .
next
  case False
  then have nhas: "\<not> Map_has (grouped key e ins xs) (key x)"
    by (simp add: Map_has_def grouped_def set_new_Set image_image)
  then have fresh: "key x \<notin> fst ` set (grouped key e ins xs)"
    by (simp add: Map_has_def)
  from False have ext: "new_Set (map key xs @ [key x]) = new_Set (map key xs) @ [key x]"
    by (simp add: new_Set_snoc set_add_def set_new_Set)
  have none: "filter (\<lambda>y. key y = key x) xs = []"
  proof -
    have "\<forall>y\<in>set xs. key y \<noteq> key x"
      using False by (metis image_eqI)
    then show ?thesis by (simp add: filter_empty_conv)
  qed
  have others: "\<And>k. k \<in> set (new_Set (map key xs)) \<Longrightarrow> key x \<noteq> k"
    using False by (auto simp: set_new_Set)
  have "group_step key e ins (grouped key e ins xs) x = grouped key e ins xs @ [(key x, ins e x)]"
    using nhas fresh by (simp add: group_step_def update_fresh map_entry_snoc_fresh)
  also have "\<dots> = grouped key e ins (xs @ [x])"
    using others by (simp add: grouped_def ext none cong: map_cong)
  finally show ?thesis .
qed

lemma foldl_group_step: "foldl (group_step key e ins) [] xs = grouped key e ins xs"
proof (induction xs rule: rev_induct)
  case Nil
  show ?case by (simp add: grouped_def new_Set_def)
next
  case (snoc x xs)
  then show ?case by (simp add: group_step_grouped)
qed

lemma new_Set_map_inj: "inj f \<Longrightarrow> new_Set (map f xs) = map f (new_Set xs)"
proof (induction xs rule: rev_induct)
  case Nil
  show ?case by (simp add: new_Set_def)
next
  case (snoc x xs)
  then show ?case
    by (simp add: new_Set_snoc set_add_def inj_image_mem_iff)
qed

lemma new_Set_foldl: "new_Set (map f ds) = foldl (\<lambda>s d. set_add s (f d)) [] ds"
  by (simp add: new_Set_def foldl_map)

lemma grouped_prefix:
  "grouped (\<lambda>d. p @ f d) e ins xs =
     map (\<lambda>r. (p @ r, foldl ins e (filter (\<lambda>d. f d = r) xs))) (new_Set (map f xs))"
proof -
  have "new_Set (map (\<lambda>d. p @ f d) xs) = map (\<lambda>r. p @ r) (new_Set (map f xs))"
    using new_Set_map_inj [of "\<lambda>r. p @ r" "map f xs"] by (simp add: inj_on_def comp_def)
  then show ?thesis by (simp add: grouped_def comp_def)
qed

lemma inj_prefix: "inj (\<lambda>s. p @ s)"
  by (simp add: inj_on_def)

lemma regionStats_step_group:
  "regionStats_step = group_step (\<lambda>d. ''region-'' @ region d) empty_stats stats_push"
  by (intro ext) (simp add: regionStats_step_def group_step_def Let_def)

lemma monthlyRegions_step_group:
  "monthlyRegions_step =
     group_step (\<lambda>d. substring (date d) 0 7) [] (\<lambda>s d. set_add s (region d))"
  by (intro ext) (simp add: monthlyRegions_step_def group_step_def Let_def)

lemma stats_push_stats_of: "stats_push (stats_of ds) d = stats_of (ds @ [d])"
  by (simp add: stats_push_def stats_of_def)

lemma foldl_stats_push: "foldl stats_push empty_stats ds = stats_of ds"
proof (induction ds rule: rev_induct)
  case Nil
  show ?case by (simp add: empty_stats_def stats_of_def)
next
  case (snoc d ds)
  then show ?case by (simp add: stats_push_stats_of)
qed

lemma regionStats_eq:
  "regionStats data =
     map (\<lambda>r. (''region-'' @ r, stats_of (records_of r data))) (regions data)"
  unfolding regionStats_def regionStats_step_group foldl_group_step grouped_prefix
    foldl_stats_push regions_def records_of_def ..

lemma month_of_eq: "(\<lambda>d. substring (date d) 0 7) = month_of"
  by (simp add: fun_eq_iff month_of_def substring_prefix)

lemma months_eq: "months data = new_Set (map month_of data)"
  unfolding months_def month_of_eq ..

lemma monthlyRegions_eq:
  "monthlyRegions data = map (\<lambda>m. (m, regions_in m data)) (months data)"
  unfolding monthlyRegions_def monthlyRegions_step_group foldl_group_step grouped_def
    month_of_eq months_eq regions_in_def new_Set_foldl ..

lemma graph_produced:
  "data \<noteq> [] \<Longrightarrow>
   graphData (generateKnowledgeGraph rd data st) =
     Some \<lparr>nodes = build_nodes data, links = build_links rd data\<rparr>"
  by (simp add: generateKnowledgeGraph_def)

lemma region_nodes:
  "filter (\<lambda>n. node_type n = Region) (build_nodes data) = map region_node (regions data)"
  by (simp add: build_nodes_def filter_map comp_def region_node_def param_node_def
      bio_node_def time_node_def)

lemma param_nodes:
  "filter (\<lambda>n. node_type n = Parameter) (build_nodes data) = map param_node parameters"
  by (simp add: build_nodes_def filter_map comp_def region_node_def param_node_def
      bio_node_def time_node_def)

lemma bio_nodes:
  "filter (\<lambda>n. node_type n = Biology) (build_nodes data) = map bio_node biologyParams"
  by (simp add: build_nodes_def filter_map comp_def region_node_def param_node_def
      bio_node_def time_node_def)

lemma time_nodes:
  "filter (\<lambda>n. node_type n = Time) (build_nodes data) = map time_node (months data)"
  by (simp add: build_nodes_def filter_map comp_def region_node_def param_node_def
      bio_node_def time_node_def)

lemma value_region_node: "map node_value (map region_node rs) = rs"
  by (induction rs) (simp_all add: region_node_def)

lemma value_param_node: "map node_value (map param_node ps) = ps"
  by (induction ps) (simp_all add: param_node_def)

lemma value_bio_node: "map node_value (map bio_node ps) = ps"
  by (induction ps) (simp_all add: bio_node_def)

lemma value_time_node: "map node_value (map time_node ms) = ms"
  by (induction ms) (simp_all add: time_node_def)

lemma set_regions: "set (regions data) = region ` set data"
  by (simp add: regions_def set_new_Set)

lemma set_months: "set (months data) = month_of ` set data"
  by (simp add: months_eq set_new_Set)

lemma distinct_regions: "distinct (regions data)"
  by (simp add: regions_def distinct_new_Set)

lemma distinct_months: "distinct (months data)"
  by (simp add: months_def distinct_new_Set)

lemma length_regions: "length (regions data) = card (region ` set data)"
  using distinct_card [OF distinct_regions, of data] by (simp add: set_regions)

lemma length_months: "length (months data) = card (month_of ` set data)"
  using distinct_card [OF distinct_months, of data] by (simp add: set_months)

lemma region_part_eq:
  "concat (map (region_links rd) (regionStats data)) =
     concat (map (\<lambda>r. region_links rd (''region-'' @ r, stats_of (records_of r data)))
       (regions data))"
  unfolding regionStats_eq map_map comp_def ..

lemma temporal_part_eq:
  "concat (map month_links (monthlyRegions data)) =
     concat (map (\<lambda>m. map (temporal_link m) (regions_in m data)) (months data))"
  unfolding monthlyRegions_eq map_map comp_def month_links_def fst_conv snd_conv ..

lemma set_regions_in:
  "set (regions_in m data) = region ` {d \<in> set data. month_of d = m}"
  by (simp add: regions_in_def set_new_Set)

lemma distinct_regions_in: "distinct (regions_in m data)"
  by (simp add: regions_in_def distinct_new_Set)

lemma set_temporal_part:
  "set (concat (map month_links (monthlyRegions data))) =
     (\<lambda>d. temporal_link (month_of d) (region d)) ` set data"
proof -
  have "set (concat (map (\<lambda>m. map (temporal_link m) (regions_in m data)) (months data)))
          \<subseteq> (\<lambda>d. temporal_link (month_of d) (region d)) ` set data"
  proof
    fix l
    assume "l \<in> set (concat (map (\<lambda>m. map (temporal_link m) (regions_in m data)) (months data)))"
    then obtain m r where "r \<in> set (regions_in m data)" and l: "l = temporal_link m r"
      by auto
    then obtain d where "d \<in> set data" "month_of d = m" "region d = r"
      by (auto simp: set_regions_in)
    then show "l \<in> (\<lambda>d. temporal_link (month_of d) (region d)) ` set data"
      unfolding l by blast
  qed
  moreover have "(\<lambda>d. temporal_link (month_of d) (region d)) ` set data
          \<subseteq> set (concat (map (\<lambda>m. map (temporal_link m) (regions_in m data)) (months data)))"
    by (auto simp: set_months set_regions_in)
  ultimately show ?thesis
    unfolding temporal_part_eq by (rule equalityI)
qed

lemma temporal_link_inject:
  "temporal_link m r = temporal_link m' r' \<longleftrightarrow> m = m' \<and> r = r'"
  by (auto simp: temporal_link_def)

lemma distinct_keyed_concat:
  assumes "distinct ms" and "\<And>m. distinct (R m)"
    and "\<And>m r m' r'. f m r = f m' r' \<Longrightarrow> m = m' \<and> r = r'"
  shows "distinct (concat (map (\<lambda>m. map (f m) (R m)) ms))"
  using assms(1)
proof (induction ms)
  case Nil
  show ?case by simp
next
  case (Cons m ms)
  have "distinct (map (f m) (R m))"
    using assms(2) assms(3) by (simp add: distinct_map inj_on_def)
  moreover have "set (map (f m) (R m)) \<inter> set (concat (map (\<lambda>m. map (f m) (R m)) ms)) = {}"
    using Cons.prems assms(3) by fastforce
  ultimately show ?case
    using Cons by simp
qed

lemma distinct_temporal_part: "distinct (concat (map month_links (monthlyRegions data)))"
  unfolding temporal_part_eq
  by (rule distinct_keyed_concat [OF distinct_months distinct_regions_in])
     (simp add: temporal_link_inject)

lemma region_links_cases:
  assumes "l \<in> set (region_links rd (k, s))"
  shows "(\<exists>p\<in>set parameters. l = param_link rd k s p) \<or> (\<exists>p\<in>set biologyParams. l = bio_link rd k s p)"
  using assms by (auto simp: region_links_def)

lemma region_part_cases:
  assumes "l \<in> set (concat (map (region_links rd) (regionStats data)))"
  shows "\<exists>r\<in>region ` set data.
           (\<exists>p\<in>set parameters. l = param_link rd (''region-'' @ r) (stats_of (records_of r data)) p)
         \<or> (\<exists>p\<in>set biologyParams. l = bio_link rd (''region-'' @ r) (stats_of (records_of r data)) p)"
proof -
  from assms obtain r where r: "r \<in> set (regions data)"
    and l: "l \<in> set (region_links rd (''region-'' @ r, stats_of (records_of r data)))"
    unfolding region_part_eq by auto
  from r have "r \<in> region ` set data"
    by (simp add: set_regions)
  with region_links_cases [OF l] show ?thesis
    by blast
qed

lemma build_links_cases:
  assumes "l \<in> set (build_links rd data)"
  shows "(\<exists>r\<in>region ` set data.
            (\<exists>p\<in>set parameters. l = param_link rd (''region-'' @ r) (stats_of (records_of r data)) p)
          \<or> (\<exists>p\<in>set biologyParams. l = bio_link rd (''region-'' @ r) (stats_of (records_of r data)) p))
       \<or> (\<exists>d\<in>set data. l = temporal_link (month_of d) (region d))"
proof -
  from assms consider "l \<in> set (concat (map (region_links rd) (regionStats data)))"
    | "l \<in> set (concat (map month_links (monthlyRegions data)))"
    unfolding build_links_def by auto
  then show ?thesis
  proof cases
    case 1
    from region_part_cases [OF 1] show ?thesis by blast
  next
    case 2
    then show ?thesis unfolding set_temporal_part by blast
  qed
qed

lemma region_id_mem:
  "r \<in> region ` set data \<Longrightarrow> ''region-'' @ r \<in> node_id ` set (build_nodes data)"
proof -
  assume "r \<in> region ` set data"
  then have "region_node r \<in> set (build_nodes data)"
    by (simp add: build_nodes_def set_regions)
  moreover have "node_id (region_node r) = ''region-'' @ r"
    by (simp add: region_node_def)
  ultimately show ?thesis by (metis imageI)
qed

lemma param_id_mem:
  "p \<in> set parameters \<Longrightarrow> ''param-'' @ p \<in> node_id ` set (build_nodes data)"
proof -
  assume "p \<in> set parameters"
  then have "param_node p \<in> set (build_nodes data)"
    by (simp add: build_nodes_def)
  moreover have "node_id (param_node p) = ''param-'' @ p"
    by (simp add: param_node_def)
  ultimately show ?thesis by (metis imageI)
qed

lemma bio_id_mem:
  "p \<in> set biologyParams \<Longrightarrow> ''bio-'' @ p \<in> node_id ` set (build_nodes data)"
proof -
  assume "p \<in> set biologyParams"
  then have "bio_node p \<in> set (build_nodes data)"
    by (simp add: build_nodes_def)
  moreover have "node_id (bio_node p) = ''bio-'' @ p"
    by (simp add: bio_node_def)
  ultimately show ?thesis by (metis imageI)
qed

lemma time_id_mem:
  "m \<in> month_of ` set data \<Longrightarrow> ''time-'' @ m \<in> node_id ` set (build_nodes data)"
proof -
  assume "m \<in> month_of ` set data"
  then have "time_node m \<in> set (build_nodes data)"
    by (simp add: build_nodes_def set_months)
  moreover have "node_id (time_node m) = ''time-'' @ m"
    by (simp add: time_node_def)
  ultimately show ?thesis by (metis imageI)
qed

text \<open>
  C1. For every non-empty record sequence the graph that \<^const>\<open>generateKnowledgeGraph\<close>
  stores has one Region node per distinct region value (their labels are distinct and are
  exactly the region values of the records), the 5 Parameter nodes salinity, temperature,
  ph, dissolved_oxygen and depth, the 3 Biology nodes fish_population, plankton and
  coral_coverage, and one Time node per distinct 7-character prefix of the dates.
\<close>

theorem node_population:
  assumes "data \<noteq> []"
  shows "\<exists>g. graphData (generateKnowledgeGraph rd data st) = Some g
     \<and> distinct (map node_value (nodes_of_type Region g))
     \<and> set (map node_value (nodes_of_type Region g)) = region ` set data
     \<and> length (nodes_of_type Region g) = card (region ` set data)
     \<and> map node_value (nodes_of_type Parameter g)
         = [''salinity'', ''temperature'', ''ph'', ''dissolved_oxygen'', ''depth'']
     \<and> length (nodes_of_type Parameter g) = 5
     \<and> map node_value (nodes_of_type Biology g)
         = [''fish_population'', ''plankton'', ''coral_coverage'']
     \<and> length (nodes_of_type Biology g) = 3
     \<and> distinct (map node_value (nodes_of_type Time g))
     \<and> set (map node_value (nodes_of_type Time g)) = month_of ` set data
     \<and> length (nodes_of_type Time g) = card (month_of ` set data)"
proof -
  let ?g = "\<lparr>nodes = build_nodes data, links = build_links rd data\<rparr>"
  have r: "nodes_of_type Region ?g = map region_node (regions data)"
    by (simp add: nodes_of_type_def region_nodes)
  have p: "nodes_of_type Parameter ?g = map param_node parameters"
    by (simp add: nodes_of_type_def param_nodes)
  have b: "nodes_of_type Biology ?g = map bio_node biologyParams"
    by (simp add: nodes_of_type_def bio_nodes)
  have t: "nodes_of_type Time ?g = map time_node (months data)"
    by (simp add: nodes_of_type_def time_nodes)
  have "distinct (map node_value (nodes_of_type Region ?g))"
    unfolding r value_region_node by (rule distinct_regions)
  moreover have "set (map node_value (nodes_of_type Region ?g)) = region ` set data"
    unfolding r value_region_node by (rule set_regions)
  moreover have "length (nodes_of_type Region ?g) = card (region ` set data)"
    unfolding r by (simp add: length_regions)
  moreover have "map node_value (nodes_of_type Parameter ?g)
      = [''salinity'', ''temperature'', ''ph'', ''dissolved_oxygen'', ''depth'']"
    unfolding p value_param_node by (simp add: parameters_def)
  moreover have "length (nodes_of_type Parameter ?g) = 5"
    unfolding p by (simp add: parameters_def)
  moreover have "map node_value (nodes_of_type Biology ?g)
      = [''fish_population'', ''plankton'', ''coral_coverage'']"
    unfolding b value_bio_node by (simp add: biologyParams_def)
  moreover have "length (nodes_of_type Biology ?g) = 3"
    unfolding b by (simp add: biologyParams_def)
  moreover have "distinct (map node_value (nodes_of_type Time ?g))"
    unfolding t value_time_node by (rule distinct_months)
  moreover have "set (map node_value (nodes_of_type Time ?g)) = month_of ` set data"
    unfolding t value_time_node by (rule set_months)
  moreover have "length (nodes_of_type Time ?g) = card (month_of ` set data)"
    unfolding t by (simp add: length_months)
  moreover have "graphData (generateKnowledgeGraph rd data st) = Some ?g"
    by (rule graph_produced [OF assms])
  ultimately show ?thesis
    by (intro exI [of _ ?g] conjI)
qed

theorem node_population_witness:
  "scenario_A \<noteq> []
   \<and> (\<exists>g. graphData (generateKnowledgeGraph exact scenario_A initial_view) = Some g
     \<and> length (nodes_of_type Region g) = 2
     \<and> length (nodes_of_type Parameter g) = 5
     \<and> length (nodes_of_type Biology g) = 3
     \<and> length (nodes_of_type Time g) = 2
     \<and> set (map node_value (nodes_of_type Time g)) = {''2025-01'', ''2025-02''})"
proof -
  have ne: "scenario_A \<noteq> []"
    by (simp add: scenario_A_def)
  have rs: "region ` set scenario_A = {''Pacific'', ''Atlantic''}"
    by (simp add: scenario_A_def sample_def)
  have ms: "month_of ` set scenario_A = {''2025-01'', ''2025-02''}"
    by (simp add: scenario_A_def sample_def month_of_def)
  have c1: "card {''Pacific'', ''Atlantic''} = 2"
    by simp
  have c2: "card {''2025-01'', ''2025-02''} = 2"
    by simp
  from node_population [OF ne, of exact initial_view] obtain g where
    g: "graphData (generateKnowledgeGraph exact scenario_A initial_view) = Some g"
      "length (nodes_of_type Region g) = card (region ` set scenario_A)"
      "length (nodes_of_type Parameter g) = 5"
      "length (nodes_of_type Biology g) = 3"
      "length (nodes_of_type Time g) = card (month_of ` set scenario_A)"
      "set (map node_value (nodes_of_type Time g)) = month_of ` set scenario_A"
    by blast
  show ?thesis
    using ne g unfolding rs ms c1 c2 by (intro conjI exI [of _ g])
qed




















lemma clamp_NaN_iff: "Math_max (Fin l) (Math_min (Fin h) v) = NaN \<longleftrightarrow> v = NaN"
  by (cases v) (simp_all add: Math_max_def Math_min_def)

lemma not_in_band_NaN: "\<not> in_band NaN"
  by (simp add: in_band_def)



lemma js_weight_NaN_iff:
  "js_weight rd xs c = NaN \<longleftrightarrow> num_div rd (avgValue rd xs) (Fin c) = NaN"
  by (simp add: js_weight_def clamp_NaN_iff)









lemma region_part_not_temporal:
  "filter (\<lambda>l. link_type l = ''temporal'') (concat (map (region_links rd) (regionStats data))) = []"
proof -
  have "link_type l \<noteq> ''temporal''"
    if "l \<in> set (concat (map (region_links rd) (regionStats data)))" for l
    using region_part_cases [OF that] by (auto simp: param_link_def bio_link_def)
  then show ?thesis
    by (simp add: filter_empty_conv del: set_concat)
qed

lemma temporal_part_temporal:
  "filter (\<lambda>l. link_type l = ''temporal'') (concat (map month_links (monthlyRegions data)))
     = concat (map month_links (monthlyRegions data))"
proof -
  have "link_type l = ''temporal''"
    if "l \<in> set (concat (map month_links (monthlyRegions data)))" for l
    using that unfolding set_temporal_part by (auto simp: temporal_link_def)
  then show ?thesis
    by (simp add: filter_id_conv del: set_concat)
qed

lemma temporal_links_eq:
  "filter (\<lambda>l. link_type l = ''temporal'') (build_links rd data)
     = concat (map month_links (monthlyRegions data))"
  unfolding build_links_def filter_append region_part_not_temporal temporal_part_temporal
  by simp

text \<open>
  C3. In the graph that \<^const>\<open>generateKnowledgeGraph\<close> stores, the temporal links are
  pairwise different, they are exactly the links from the Time node of a month to the
  Region node of a region for the (month, region) pairs that occur in a record, their
  number is the number of distinct such pairs, and each has weight 1. Three records with
  region Pacific and month 2025-03 give one temporal link.
\<close>

theorem temporal_links_deduplicated:
  assumes "data \<noteq> []"
  shows "\<exists>g. graphData (generateKnowledgeGraph rd data st) = Some g
     \<and> distinct (links_of_type ''temporal'' g)
     \<and> set (links_of_type ''temporal'' g)
         = (\<lambda>d. \<lparr>link_source = ''time-'' @ month_of d, link_target = ''region-'' @ region d,
                  link_value = Fin 1, link_type = ''temporal''\<rparr>) ` set data
     \<and> length (links_of_type ''temporal'' g)
         = card ((\<lambda>d. (month_of d, region d)) ` set data)
     \<and> (\<forall>l\<in>set (links_of_type ''temporal'' g). link_value l = Fin 1)"
proof -
  let ?g = "\<lparr>nodes = build_nodes data, links = build_links rd data\<rparr>"
  let ?T = "links_of_type ''temporal'' ?g"
  have T: "?T = concat (map month_links (monthlyRegions data))"
    by (simp add: links_of_type_def temporal_links_eq)
  have d: "distinct ?T"
    unfolding T by (rule distinct_temporal_part)
  have s: "set ?T = (\<lambda>d. temporal_link (month_of d) (region d)) ` set data"
    unfolding T by (rule set_temporal_part)
  have "length ?T = card (set ?T)"
    using d by (simp add: distinct_card)
  also have "set ?T = (\<lambda>p. temporal_link (fst p) (snd p)) ` (\<lambda>d. (month_of d, region d)) ` set data"
    unfolding s by (simp add: image_image)
  also have "card \<dots> = card ((\<lambda>d. (month_of d, region d)) ` set data)"
    by (rule card_image) (auto simp: inj_on_def temporal_link_inject)
  finally have n: "length ?T = card ((\<lambda>d. (month_of d, region d)) ` set data)" .
  have s': "set ?T = (\<lambda>d. \<lparr>link_source = ''time-'' @ month_of d,
      link_target = ''region-'' @ region d, link_value = Fin 1, link_type = ''temporal''\<rparr>) ` set data"
    unfolding s temporal_link_def ..
  have w: "\<forall>l\<in>set ?T. link_value l = Fin 1"
    unfolding s by (simp add: temporal_link_def)
  have "graphData (generateKnowledgeGraph rd data st) = Some ?g"
    by (rule graph_produced [OF assms])
  then show ?thesis
    using d s' n w by (intro exI [of _ ?g] conjI)
qed

theorem temporal_links_deduplicated_witness:
  "scenario_B \<noteq> []
   \<and> (\<exists>g. graphData (generateKnowledgeGraph exact scenario_B initial_view) = Some g
     \<and> length (links_of_type ''temporal'' g) = 1
     \<and> set (links_of_type ''temporal'' g)
         = {\<lparr>link_source = ''time-2025-03'', link_target = ''region-Pacific'',
             link_value = Fin 1, link_type = ''temporal''\<rparr>})"
proof -
  have ne: "scenario_B \<noteq> []"
    by (simp add: scenario_B_def)
  from temporal_links_deduplicated [OF ne, of exact initial_view] obtain g where
    g: "graphData (generateKnowledgeGraph exact scenario_B initial_view) = Some g"
      "length (links_of_type ''temporal'' g)
         = card ((\<lambda>d. (month_of d, region d)) ` set scenario_B)"
      "set (links_of_type ''temporal'' g)
         = (\<lambda>d. \<lparr>link_source = ''time-'' @ month_of d, link_target = ''region-'' @ region d,
                  link_value = Fin 1, link_type = ''temporal''\<rparr>) ` set scenario_B"
    by blast
  have "length (links_of_type ''temporal'' g) = 1"
    unfolding g(2) by (simp add: scenario_B_def sample_def month_of_def)
  moreover have "set (links_of_type ''temporal'' g)
         = {\<lparr>link_source = ''time-2025-03'', link_target = ''region-Pacific'',
             link_value = Fin 1, link_type = ''temporal''\<rparr>}"
    unfolding g(3) by (simp add: scenario_B_def sample_def month_of_def)
  ultimately show ?thesis
    using ne g(1) by (intro conjI exI [of _ g])
qed

text \<open>
  C4. In the graph that \<^const>\<open>generateKnowledgeGraph\<close> stores, the source and the target
  of every link are ids of nodes of that graph.
\<close>

theorem no_dangling_links:
  assumes "data \<noteq> []"
  shows "\<exists>g. graphData (generateKnowledgeGraph rd data st) = Some g
     \<and> (\<forall>l\<in>set (links g).
           link_source l \<in> node_id ` set (nodes g) \<and> link_target l \<in> node_id ` set (nodes g))"
proof -
  let ?g = "\<lparr>nodes = build_nodes data, links = build_links rd data\<rparr>"
  let ?ids = "node_id ` set (build_nodes data)"
  have "link_source l \<in> ?ids \<and> link_target l \<in> ?ids" if "l \<in> set (build_links rd data)" for l
  proof -
    from build_links_cases [OF that] consider
      (param) r p where "r \<in> region ` set data" "p \<in> set parameters"
        "l = param_link rd (''region-'' @ r) (stats_of (records_of r data)) p"
    | (bio) r p where "r \<in> region ` set data" "p \<in> set biologyParams"
        "l = bio_link rd (''region-'' @ r) (stats_of (records_of r data)) p"
    | (temporal) d where "d \<in> set data" "l = temporal_link (month_of d) (region d)"
      by blast
    then show ?thesis
    proof cases
      case param
      have "link_source l = ''region-'' @ r" "link_target l = ''param-'' @ p"
        by (simp_all add: param param_link_def)
      then show ?thesis
        using region_id_mem [OF param(1)] param_id_mem [OF param(2)] by metis
    next
      case bio
      have "link_source l = ''region-'' @ r" "link_target l = ''bio-'' @ p"
        by (simp_all add: bio bio_link_def)
      then show ?thesis
        using region_id_mem [OF bio(1)] bio_id_mem [OF bio(2)] by metis
    next
      case temporal
      have "link_source l = ''time-'' @ month_of d" "link_target l = ''region-'' @ region d"
        by (simp_all add: temporal temporal_link_def)
      moreover have "month_of d \<in> month_of ` set data" "region d \<in> region ` set data"
        using temporal(1) by simp_all
      ultimately show ?thesis
        using region_id_mem time_id_mem by metis
    qed
  qed
  then have "\<forall>l\<in>set (links ?g).
      link_source l \<in> node_id ` set (nodes ?g) \<and> link_target l \<in> node_id ` set (nodes ?g)"
    by simp
  moreover have "graphData (generateKnowledgeGraph rd data st) = Some ?g"
    by (rule graph_produced [OF assms])
  ultimately show ?thesis
    by (intro exI [of _ ?g] conjI)
qed

theorem no_dangling_links_witness:
  "scenario_A \<noteq> []
   \<and> (\<exists>g. graphData (generateKnowledgeGraph exact scenario_A initial_view) = Some g
     \<and> (\<forall>l\<in>set (links g).
           link_source l \<in> node_id ` set (nodes g) \<and> link_target l \<in> node_id ` set (nodes g)))"
proof -
  have ne: "scenario_A \<noteq> []"
    by (simp add: scenario_A_def)
  show ?thesis
    using ne no_dangling_links [OF ne, of exact initial_view] by (intro conjI)
qed

lemma ids_build_nodes:
  "map node_id (build_nodes data) =
     map (\<lambda>r. ''region-'' @ r) (regions data) @ map (\<lambda>p. ''param-'' @ p) parameters
       @ map (\<lambda>p. ''bio-'' @ p) biologyParams @ map (\<lambda>m. ''time-'' @ m) (months data)"
  by (simp add: build_nodes_def comp_def region_node_def param_node_def bio_node_def
      time_node_def)

lemma distinct_prefixed: "distinct xs \<Longrightarrow> distinct (map ((@) p) xs)"
  by (simp add: distinct_map inj_on_def)

lemma distinct_ids_build_nodes: "distinct (map node_id (build_nodes data))"
proof -
  have "distinct (map ((@) ''region-'') (regions data))"
    by (rule distinct_prefixed [OF distinct_regions])
  moreover have "distinct (map ((@) ''time-'') (months data))"
    by (rule distinct_prefixed [OF distinct_months])
  ultimately show ?thesis
    unfolding ids_build_nodes by (auto simp: parameters_def biologyParams_def)
qed

lemma id_of_build_nodes:
  "n \<in> set (build_nodes data) \<Longrightarrow> node_id n = id_of (node_type n) (node_value n)"
  by (auto simp: build_nodes_def id_of_def region_node_def param_node_def bio_node_def
      time_node_def)

text \<open>
  C5. The node ids of the graph that \<^const>\<open>generateKnowledgeGraph\<close> stores are pairwise
  distinct, and the id of every node is the function \<^const>\<open>id_of\<close> of its kind and its
  label, so that two nodes with the same kind and label have the same id.
\<close>

theorem node_ids_unique:
  assumes "data \<noteq> []"
  shows "\<exists>g. graphData (generateKnowledgeGraph rd data st) = Some g
     \<and> distinct (map node_id (nodes g))
     \<and> (\<forall>n\<in>set (nodes g). node_id n = id_of (node_type n) (node_value n))"
proof -
  let ?g = "\<lparr>nodes = build_nodes data, links = build_links rd data\<rparr>"
  have "graphData (generateKnowledgeGraph rd data st) = Some ?g"
    by (rule graph_produced [OF assms])
  moreover have "distinct (map node_id (nodes ?g))"
    by (simp add: distinct_ids_build_nodes)
  moreover have "\<forall>n\<in>set (nodes ?g). node_id n = id_of (node_type n) (node_value n)"
    by (simp add: id_of_build_nodes)
  ultimately show ?thesis
    by (intro exI [of _ ?g] conjI)
qed

theorem node_ids_unique_witness:
  "scenario_B \<noteq> []
   \<and> (\<exists>g. graphData (generateKnowledgeGraph exact scenario_B initial_view) = Some g
     \<and> distinct (map node_id (nodes g))
     \<and> (\<forall>n\<in>set (nodes g). node_id n = id_of (node_type n) (node_value n)))"
proof -
  have ne: "scenario_B \<noteq> []"
    by (simp add: scenario_B_def)
  show ?thesis
    using ne node_ids_unique [OF ne, of exact initial_view] by (intro conjI)
qed

text \<open>
  C6. The graph that \<^const>\<open>generateKnowledgeGraph\<close> stores depends on the records only:
  invoking it again on the same records changes nothing, and for a non-empty sequence the
  stored graph is the same from any two component states, whatever the simulation has
  written into them.
\<close>

theorem builder_deterministic:
  "generateKnowledgeGraph rd data (generateKnowledgeGraph rd data st) = generateKnowledgeGraph rd data st
   \<and> (data \<noteq> [] \<longrightarrow>
        graphData (generateKnowledgeGraph rd data st1) = graphData (generateKnowledgeGraph rd data st2))"
  by (simp add: generateKnowledgeGraph_def)

theorem builder_deterministic_witness:
  "scenario_A \<noteq> []
   \<and> graphData (generateKnowledgeGraph exact scenario_A initial_view)
       = graphData (generateKnowledgeGraph exact scenario_A
           (initial_view\<lparr>selectedNode := Some (region_node ''Pacific''), alpha := 0.3\<rparr>))"
proof -
  have ne: "scenario_A \<noteq> []"
    by (simp add: scenario_A_def)
  show ?thesis
    using ne builder_deterministic [of exact scenario_A initial_view initial_view
        "initial_view\<lparr>selectedNode := Some (region_node ''Pacific''), alpha := 0.3\<rparr>"]
    by blast
qed

text \<open>
  C7, as the code has it. Invoked with no records, \<^const>\<open>generateKnowledgeGraph\<close>
  returns at once: it stores no snapshot and leaves the component state as it was, so the
  graph stays absent if none had been built, and a graph built earlier stays in place.
\<close>

theorem empty_input_leaves_state:
  "generateKnowledgeGraph rd [] st = st"
  by (simp add: generateKnowledgeGraph_def)

text \<open>
  C7 as stated fails: after an invocation with no records the stored graph is not the
  empty snapshot, neither from the initial state nor from a state that holds a graph.
\<close>

theorem empty_input_counterexample:
  "graphData (generateKnowledgeGraph exact [] initial_view) \<noteq> Some \<lparr>nodes = [], links = []\<rparr>
   \<and> graphData (generateKnowledgeGraph exact [] (generateKnowledgeGraph exact scenario_B initial_view))
       \<noteq> Some \<lparr>nodes = [], links = []\<rparr>"
  by (simp add: generateKnowledgeGraph_def initial_view_def scenario_B_def build_nodes_def
      parameters_def)











lemma update_node_Some:
  assumes "graphData st = Some g" and "i < length (nodes g)"
  shows "update_node i f st = st\<lparr>graphData := Some (g\<lparr>nodes := (nodes g)[i := f (nodes g ! i)]\<rparr>)\<rparr>"
  using assms by (simp add: update_node_def)





lemma substring_short: "length s \<le> n \<Longrightarrow> substring s 0 n = s"
  by (simp add: substring_prefix)

lemma month_of_substring: "month_of d = substring (date d) 0 7"
  by (simp add: month_of_def substring_prefix)

lemma time_node_of_record:
  assumes "d \<in> set data"
  shows "time_node (month_of d) \<in> set (filter (\<lambda>n. node_type n = Time) (build_nodes data))"
  unfolding time_nodes using assms by (simp add: set_months)

lemma temporal_link_of_record:
  assumes "d \<in> set data"
  shows "temporal_link (month_of d) (region d) \<in> set (build_links rd data)"
proof -
  have "temporal_link (month_of d) (region d)
      \<in> set (concat (map month_links (monthlyRegions data)))"
    unfolding set_temporal_part using assms by blast
  then show ?thesis
    unfolding build_links_def by simp
qed

text \<open>
  C10. The builder reads the date of a record only through \<^const>\<open>substring\<close>, which is
  defined for every string. So for every non-empty record sequence, whatever the dates, a
  graph is stored; its Time nodes are, without repetition, the values of
  \<open>substring (date d) 0 7\<close> over the records; and for a record whose date has at most 7
  characters (the empty date included) that value is the whole date, which labels a Time
  node with id \<open>time-\<close> followed by the date, the source of that record's temporal link.
\<close>

theorem short_dates_handled:
  assumes "data \<noteq> []"
  shows "\<exists>g. graphData (generateKnowledgeGraph rd data st) = Some g
     \<and> distinct (map node_value (nodes_of_type Time g))
     \<and> set (map node_value (nodes_of_type Time g)) = (\<lambda>d. substring (date d) 0 7) ` set data
     \<and> (\<forall>d\<in>set data. length (date d) \<le> 7 \<longrightarrow>
           substring (date d) 0 7 = date d
           \<and> (\<exists>n\<in>set (nodes_of_type Time g).
                 node_value n = date d \<and> node_id n = ''time-'' @ date d)
           \<and> \<lparr>link_source = ''time-'' @ date d, link_target = ''region-'' @ region d,
                link_value = Fin 1, link_type = ''temporal''\<rparr> \<in> set (links g))"
proof -
  let ?g = "\<lparr>nodes = build_nodes data, links = build_links rd data\<rparr>"
  have g: "graphData (generateKnowledgeGraph rd data st) = Some ?g"
    by (rule graph_produced [OF assms])
  have t: "nodes_of_type Time ?g = map time_node (months data)"
    by (simp add: nodes_of_type_def time_nodes)
  have a: "distinct (map node_value (nodes_of_type Time ?g))"
    unfolding t value_time_node by (rule distinct_months)
  have b: "set (map node_value (nodes_of_type Time ?g)) = (\<lambda>d. substring (date d) 0 7) ` set data"
    unfolding t value_time_node months_def by (simp add: set_new_Set)
  have c: "\<forall>d\<in>set data. length (date d) \<le> 7 \<longrightarrow>
           substring (date d) 0 7 = date d
           \<and> (\<exists>n\<in>set (nodes_of_type Time ?g).
                 node_value n = date d \<and> node_id n = ''time-'' @ date d)
           \<and> \<lparr>link_source = ''time-'' @ date d, link_target = ''region-'' @ region d,
                link_value = Fin 1, link_type = ''temporal''\<rparr> \<in> set (links ?g)"
  proof (intro ballI impI conjI)
    fix d assume d: "d \<in> set data" and short: "length (date d) \<le> 7"
    show "substring (date d) 0 7 = date d"
      by (rule substring_short [OF short])
    have m: "month_of d = date d"
      using short by (simp add: month_of_def)
    have "time_node (date d) \<in> set (nodes_of_type Time ?g)"
      using time_node_of_record [OF d] unfolding m by (simp add: nodes_of_type_def)
    moreover have "node_value (time_node (date d)) = date d"
      "node_id (time_node (date d)) = ''time-'' @ date d"
      by (simp_all add: time_node_def)
    ultimately show "\<exists>n\<in>set (nodes_of_type Time ?g).
        node_value n = date d \<and> node_id n = ''time-'' @ date d"
      by blast
    show "\<lparr>link_source = ''time-'' @ date d, link_target = ''region-'' @ region d,
            link_value = Fin 1, link_type = ''temporal''\<rparr> \<in> set (links ?g)"
      using temporal_link_of_record [OF d] unfolding m temporal_link_def by simp
  qed
  show ?thesis
    using g a b c by (intro exI [of _ ?g] conjI)
qed

theorem short_dates_handled_witness:
  "short_dates \<noteq> []
   \<and> (\<exists>g. graphData (generateKnowledgeGraph exact short_dates initial_view) = Some g
     \<and> set (map node_value (nodes_of_type Time g)) = {[], ''2025'', ''2025-03''}
     \<and> (\<exists>n\<in>set (nodes_of_type Time g). node_value n = [] \<and> node_id n = ''time-'')
     \<and> \<lparr>link_source = ''time-'', link_target = ''region-Pacific'',
          link_value = Fin 1, link_type = ''temporal''\<rparr> \<in> set (links g))"
proof -
  have ne: "short_dates \<noteq> []"
    by (simp add: short_dates_def)
  have d: "sample ''Pacific'' [] (Fin 100) \<in> set short_dates"
    by (simp add: short_dates_def)
  have s: "length (date (sample ''Pacific'' [] (Fin 100))) \<le> 7"
    by (simp add: sample_def)
  have f: "date (sample ''Pacific'' [] (Fin 100)) = []" "region (sample ''Pacific'' [] (Fin 100)) = ''Pacific''"
    by (simp_all add: sample_def)
  have ms: "(\<lambda>d. substring (date d) 0 7) ` set short_dates = {[], ''2025'', ''2025-03''}"
    by (simp add: short_dates_def sample_def substring_prefix)
  from short_dates_handled [OF ne, of exact initial_view] obtain g where
    g: "graphData (generateKnowledgeGraph exact short_dates initial_view) = Some g"
    and v: "set (map node_value (nodes_of_type Time g))
              = (\<lambda>d. substring (date d) 0 7) ` set short_dates"
    and each: "\<forall>d\<in>set short_dates. length (date d) \<le> 7 \<longrightarrow>
           substring (date d) 0 7 = date d
           \<and> (\<exists>n\<in>set (nodes_of_type Time g).
                 node_value n = date d \<and> node_id n = ''time-'' @ date d)
           \<and> \<lparr>link_source = ''time-'' @ date d, link_target = ''region-'' @ region d,
                link_value = Fin 1, link_type = ''temporal''\<rparr> \<in> set (links g)"
    by blast
  from each d s have e:
    "(\<exists>n\<in>set (nodes_of_type Time g).
        node_value n = date (sample ''Pacific'' [] (Fin 100))
        \<and> node_id n = ''time-'' @ date (sample ''Pacific'' [] (Fin 100)))
     \<and> \<lparr>link_source = ''time-'' @ date (sample ''Pacific'' [] (Fin 100)),
          link_target = ''region-'' @ region (sample ''Pacific'' [] (Fin 100)),
          link_value = Fin 1, link_type = ''temporal''\<rparr> \<in> set (links g)"
    by blast
  have n: "\<exists>n\<in>set (nodes_of_type Time g). node_value n = [] \<and> node_id n = ''time-''"
    using e unfolding f by simp
  have l: "\<lparr>link_source = ''time-'', link_target = ''region-Pacific'',
          link_value = Fin 1, link_type = ''temporal''\<rparr> \<in> set (links g)"
    using e unfolding f by simp
  show ?thesis
    using ne g v [unfolded ms] n l by (intro conjI exI [of _ g])
qed

end
